theory Spec2Isabelle
  imports Main "HOL-Library.State_Monad" "HOL-Library.Code_Target_Numeral"
begin

section \<open>The prime field (package radix51)\<close>

text \<open>
  The group code takes its field arithmetic from the package \<^verbatim>\<open>radix51\<close>
  (imported as \<^verbatim>\<open>field\<close> by \<^verbatim>\<open>ge.go\<close>), which is not among the sources. This section models
  that package from the specification: a field element is a residue modulo
  \<open>p = 2\<^sup>2\<^sup>5\<^sup>5 - 19\<close> with addition, subtraction, negation, multiplication, squaring,
  inversion and the conversions from and to arbitrary-precision integers. Limb
  representation and lazy reduction are not modelled: an element is its canonical value.
\<close>

text \<open>Modelled from the spec: the modulus of the field, absent with the field package.\<close>

definition fe_p :: int where
  "fe_p = 2 ^ 255 - 19"

lemma fe_p_pos: "0 < fe_p"
  by (simp add: fe_p_def)

lemma fe_p_gt_1: "1 < fe_p"
  by (simp add: fe_p_def)

text \<open>Modelled from the spec: the type \<^verbatim>\<open>FieldElement\<close>, a residue modulo \<open>p\<close>.\<close>

typedef fe = "{0 ..< fe_p}"
  using fe_p_pos by (intro exI [of _ 0]) simp

setup_lifting type_definition_fe

text \<open>Modelled from the spec: the ring operations of the field, each reduced modulo \<open>p\<close>.\<close>

instantiation fe :: comm_ring_1
begin

lift_definition zero_fe :: fe is 0
  by (simp add: fe_p_pos)

lift_definition one_fe :: fe is 1
  by (simp add: fe_p_gt_1)

lift_definition plus_fe :: "fe \<Rightarrow> fe \<Rightarrow> fe" is "\<lambda>a b. (a + b) mod fe_p"
  by (simp add: fe_p_pos)

lift_definition minus_fe :: "fe \<Rightarrow> fe \<Rightarrow> fe" is "\<lambda>a b. (a - b) mod fe_p"
  by (simp add: fe_p_pos)

lift_definition uminus_fe :: "fe \<Rightarrow> fe" is "\<lambda>a. (- a) mod fe_p"
  by (simp add: fe_p_pos)

lift_definition times_fe :: "fe \<Rightarrow> fe \<Rightarrow> fe" is "\<lambda>a b. (a * b) mod fe_p"
  by (simp add: fe_p_pos)

instance
proof
  fix a b c :: fe
  show "a * b * c = a * (b * c)"
    by transfer (simp add: mod_simps mult.assoc)
  show "a * b = b * a"
    by transfer (simp add: mult.commute)
  show "1 * a = a"
    by transfer simp
  show "a + b + c = a + (b + c)"
    by transfer (simp add: mod_simps add.assoc)
  show "a + b = b + a"
    by transfer (simp add: add.commute)
  show "0 + a = a"
    by transfer simp
  show "- a + a = 0"
    by transfer (simp add: mod_simps)
  show "a - b = a + - b"
    by transfer (simp add: mod_simps)
  show "(a + b) * c = a * c + b * c"
    by transfer (simp add: mod_simps distrib_right)
  show "(0::fe) \<noteq> 1"
    by transfer simp
qed

end

instantiation fe :: equal
begin

lift_definition equal_fe :: "fe \<Rightarrow> fe \<Rightarrow> bool" is "\<lambda>a b. a = b" .

instance
  by standard (simp add: equal_fe.rep_eq Rep_fe_inject)

end

text \<open>Modelled from the spec: \<^verbatim>\<open>FromBig\<close> reduces an integer modulo \<open>p\<close>.\<close>

lift_definition FromBig :: "int \<Rightarrow> fe" is "\<lambda>x. x mod fe_p"
  by (simp add: fe_p_pos)

text \<open>Modelled from the spec: \<^verbatim>\<open>ToBig\<close> returns the canonical representative in
  \<open>[0, p)\<close>.\<close>

definition ToBig :: "fe \<Rightarrow> int" where
  "ToBig a = Rep_fe a"

text \<open>Modelled from the spec: the routines \<^verbatim>\<open>Zero\<close>, \<^verbatim>\<open>One\<close>, \<^verbatim>\<open>Add\<close>, \<^verbatim>\<open>Sub\<close>, \<^verbatim>\<open>Neg\<close>,
  \<^verbatim>\<open>Mul\<close> and \<^verbatim>\<open>Square\<close> of the field package, as functions from the operands to the
  value stored in the destination. (\<^verbatim>\<open>Set\<close>, the copy, is the identity.)\<close>

definition fe_Zero :: fe where
  "fe_Zero = 0"

definition fe_One :: fe where
  "fe_One = 1"

definition fe_Add :: "fe \<Rightarrow> fe \<Rightarrow> fe" where
  "fe_Add a b = a + b"

definition fe_Sub :: "fe \<Rightarrow> fe \<Rightarrow> fe" where
  "fe_Sub a b = a - b"

definition fe_Neg :: "fe \<Rightarrow> fe" where
  "fe_Neg a = - a"

definition fe_Mul :: "fe \<Rightarrow> fe \<Rightarrow> fe" where
  "fe_Mul a b = a * b"

definition fe_Square :: "fe \<Rightarrow> fe" where
  "fe_Square a = a * a"

text \<open>
  Modelled from the spec: \<^verbatim>\<open>Invert\<close>, multiplicative inversion, with the zero element
  mapped to zero (the value the exponentiation \<open>z\<^bsup>p-2\<^esup>\<close> of the field package takes
  there). The model returns the inverse of every invertible residue, computed from the
  Bezout coefficients of the residue and the modulus, and zero for any other residue.
  \<open>fe_unit\<close> is the test it performs. Nothing below rests on \<open>p\<close> being prime.
\<close>

definition fe_unit :: "fe \<Rightarrow> bool" where
  "fe_unit z \<longleftrightarrow> gcd (Rep_fe z) fe_p = 1"

definition fe_Invert :: "fe \<Rightarrow> fe" where
  "fe_Invert z =
     (if fe_unit z
      then FromBig (fst (bezw (nat (Rep_fe z)) (nat fe_p)))
      else 0)"

text \<open>
  Modelled from the spec: a literal \<^verbatim>\<open>radix51.FieldElement{l0, l1, l2, l3, l4}\<close>, five
  limbs in radix \<open>2\<^sup>5\<^sup>1\<close>, least significant first.
\<close>

definition FieldElement :: "int \<Rightarrow> int \<Rightarrow> int \<Rightarrow> int \<Rightarrow> int \<Rightarrow> fe" where
  "FieldElement l0 l1 l2 l3 l4 =
     FromBig (l0 + l1 * 2 ^ 51 + l2 * 2 ^ 102 + l3 * 2 ^ 153 + l4 * 2 ^ 204)"

text \<open>Modelled from the spec: \<^verbatim>\<open>radix51.Two\<close>, the field element 2.\<close>

definition Two :: fe where
  "Two = FromBig 2"

section \<open>Group elements\<close>

text \<open>
  The package comes in two files. This section follows the one that calls the field
  package through methods (\<^verbatim>\<open>v.X.Mul(&E, &F)\<close>), the main file below; what \<^verbatim>\<open>ge.go\<close>
  does differently is collected at the end of the section.

  Both structs of the source name their fields \<^verbatim>\<open>X\<close>, \<^verbatim>\<open>Y\<close>, \<^verbatim>\<open>Z\<close> (and \<^verbatim>\<open>T\<close>); the record
  fields carry a prefix to tell the two types apart. The methods of the two types are
  prefixed \<open>Ext_\<close> and \<open>Proj_\<close> for the same reason.
\<close>

record ExtendedGroupElement =
  eX :: fe
  eY :: fe
  eZ :: fe
  eT :: fe

record ProjectiveGroupElement =
  pX :: fe
  pY :: fe
  pZ :: fe

text \<open>A variable declared with \<^verbatim>\<open>var\<close> starts with all limbs zero.\<close>

definition Ext_var :: ExtendedGroupElement where
  "Ext_var = \<lparr>eX = 0, eY = 0, eZ = 0, eT = 0\<rparr>"

definition Proj_var :: ProjectiveGroupElement where
  "Proj_var = \<lparr>pX = 0, pY = 0, pZ = 0\<rparr>"

text \<open>The curve constant \<open>d\<close> and the constant \<open>2d\<close>, as the source spells them.\<close>

definition D :: fe where
  "D = FieldElement 929955233495203 466365720129213
         1662059464998953 2033849074728123 1442794654840575"

definition twoD :: fe where
  "twoD = FieldElement 1859910466990425 932731440258426
            1072319116312658 1815898335770999 633789495995903"

subsection \<open>Extended coordinates\<close>

text \<open>
  A method with a pointer receiver that it overwrites takes the receiver's value and
  returns the updated value; every assignment of the source is one binding.
\<close>

definition Ext_FromAffine :: "ExtendedGroupElement \<Rightarrow> int \<Rightarrow> int \<Rightarrow> ExtendedGroupElement" where
  "Ext_FromAffine v x y =
     (let v = v\<lparr>eX := FromBig x\<rparr>;
          v = v\<lparr>eY := FromBig y\<rparr>;
          v = v\<lparr>eT := fe_Mul (eX v) (eY v)\<rparr>;
          v = v\<lparr>eZ := fe_One\<rparr>
      in v)"

definition Ext_ToAffine :: "ExtendedGroupElement \<Rightarrow> int \<times> int" where
  "Ext_ToAffine v =
     (let zinv = fe_Invert (eZ v);
          x = fe_Mul (eX v) zinv;
          y = fe_Mul (eY v) zinv
      in (ToBig x, ToBig y))"

definition Ext_ToProjective :: "ExtendedGroupElement \<Rightarrow> ProjectiveGroupElement" where
  "Ext_ToProjective v =
     (let p = Proj_var;
          p = p\<lparr>pX := eX v\<rparr>;
          p = p\<lparr>pY := eY v\<rparr>;
          p = p\<lparr>pZ := eZ v\<rparr>
      in p)"

definition Ext_Zero :: "ExtendedGroupElement \<Rightarrow> ExtendedGroupElement" where
  "Ext_Zero v =
     (let v = v\<lparr>eX := fe_Zero\<rparr>;
          v = v\<lparr>eY := fe_One\<rparr>;
          v = v\<lparr>eZ := fe_One\<rparr>;
          v = v\<lparr>eT := fe_Zero\<rparr>
      in v)"

definition Ext_Add ::
  "ExtendedGroupElement \<Rightarrow> ExtendedGroupElement \<Rightarrow> ExtendedGroupElement \<Rightarrow> ExtendedGroupElement" where
  "Ext_Add v p1 p2 =
     (let tmp1 = fe_Sub (eY p1) (eX p1);
          tmp2 = fe_Sub (eY p2) (eX p2);
          A = fe_Mul tmp1 tmp2;
          tmp1 = fe_Add (eY p1) (eX p1);
          tmp2 = fe_Add (eY p2) (eX p2);
          B = fe_Mul tmp1 tmp2;
          tmp1 = fe_Mul (eT p1) (eT p2);
          C = fe_Mul tmp1 twoD;
          tmp1 = fe_Mul (eZ p1) (eZ p2);
          D = fe_Add tmp1 tmp1;
          E = fe_Sub B A;
          F = fe_Sub D C;
          G = fe_Add D C;
          H = fe_Add B A;
          v = v\<lparr>eX := fe_Mul E F\<rparr>;
          v = v\<lparr>eY := fe_Mul G H\<rparr>;
          v = v\<lparr>eT := fe_Mul E H\<rparr>;
          v = v\<lparr>eZ := fe_Mul F G\<rparr>
      in v)"

definition Ext_Double :: "ExtendedGroupElement \<Rightarrow> ExtendedGroupElement" where
  "Ext_Double v =
     (let A = fe_Square (eX v);
          B = fe_Square (eY v);
          C = fe_Square (eZ v);
          C = fe_Add C C;
          D = fe_Neg A;
          t0 = fe_Add (eX v) (eY v);
          t0 = fe_Square t0;
          E = fe_Sub t0 A;
          E = fe_Sub E B;
          G = fe_Add D B;
          F = fe_Sub G C;
          H = fe_Sub D B;
          v = v\<lparr>eX := fe_Mul E F\<rparr>;
          v = v\<lparr>eY := fe_Mul G H\<rparr>;
          v = v\<lparr>eT := fe_Mul E H\<rparr>;
          v = v\<lparr>eZ := fe_Mul F G\<rparr>
      in v)"

subsection \<open>Projective coordinates\<close>

definition Proj_FromAffine :: "ProjectiveGroupElement \<Rightarrow> int \<Rightarrow> int \<Rightarrow> ProjectiveGroupElement" where
  "Proj_FromAffine v x y =
     (let v = v\<lparr>pX := FromBig x\<rparr>;
          v = v\<lparr>pY := FromBig y\<rparr>;
          v = v\<lparr>pZ := fe_Zero\<rparr>
      in v)"

definition Proj_ToAffine :: "ProjectiveGroupElement \<Rightarrow> int \<times> int" where
  "Proj_ToAffine v =
     (let zinv = fe_Invert (pZ v);
          x = fe_Mul (pX v) zinv;
          y = fe_Mul (pY v) zinv
      in (ToBig x, ToBig y))"

text \<open>
  \<^verbatim>\<open>ToExtended\<close> is written against a log of the field routines it calls, so that its
  cost can be read off a run; \<open>Proj_ToExtended\<close> is the value such a run returns. A logged
  routine returns the value of the routine and appends its name to the log.
\<close>

datatype fe_call = Call_Add | Call_Sub | Call_Neg | Call_Mul | Call_Square | Call_Invert

definition call :: "fe_call \<Rightarrow> 'a \<Rightarrow> (fe_call list, 'a) state" where
  "call c r = State (\<lambda>log. (r, log @ [c]))"

definition Mul :: "fe \<Rightarrow> fe \<Rightarrow> (fe_call list, fe) state" where
  "Mul a b = call Call_Mul (fe_Mul a b)"

definition Square :: "fe \<Rightarrow> (fe_call list, fe) state" where
  "Square a = call Call_Square (fe_Square a)"

definition Invert :: "fe \<Rightarrow> (fe_call list, fe) state" where
  "Invert a = call Call_Invert (fe_Invert a)"

definition Proj_ToExtended_run ::
  "ProjectiveGroupElement \<Rightarrow> (fe_call list, ExtendedGroupElement) state" where
  "Proj_ToExtended_run v = do {
     let r = Ext_var;
     x \<leftarrow> Mul (pX v) (pZ v);
     let r = r\<lparr>eX := x\<rparr>;
     y \<leftarrow> Mul (pY v) (pZ v);
     let r = r\<lparr>eY := y\<rparr>;
     t \<leftarrow> Mul (pX v) (pY v);
     let r = r\<lparr>eT := t\<rparr>;
     z \<leftarrow> Square (pZ v);
     let r = r\<lparr>eZ := z\<rparr>;
     State_Monad.return r
   }"

definition Proj_ToExtended :: "ProjectiveGroupElement \<Rightarrow> ExtendedGroupElement" where
  "Proj_ToExtended v = fst (run_state (Proj_ToExtended_run v) [])"

definition Proj_Zero :: "ProjectiveGroupElement \<Rightarrow> ProjectiveGroupElement" where
  "Proj_Zero v =
     (let v = v\<lparr>pX := fe_Zero\<rparr>;
          v = v\<lparr>pY := fe_One\<rparr>;
          v = v\<lparr>pZ := fe_One\<rparr>
      in v)"

text \<open>
  \<^verbatim>\<open>DoubleZ1\<close> copies the receiver into the local \<open>p\<close>, uses the fields of \<open>p\<close> and of
  the local \<open>q\<close> as scratch space, and returns \<open>q\<close>. The function below is the body after
  the copy; the dereference of the receiver and the allocation of the result are modelled
  in the section on the store.
\<close>

definition Proj_DoubleZ1 :: "ProjectiveGroupElement \<Rightarrow> ProjectiveGroupElement" where
  "Proj_DoubleZ1 v =
     (let q = Proj_var;
          p = v;
          t0 = fe_Square (pX p);
          t1 = fe_Square (pY p);
          p = p\<lparr>pZ := fe_Add (pX p) (pY p)\<rparr>;
          q = q\<lparr>pX := fe_Square (pZ p)\<rparr>;
          q = q\<lparr>pZ := fe_Neg t0\<rparr>;
          p = p\<lparr>pX := fe_Add (pZ q) t1\<rparr>;
          p = p\<lparr>pY := fe_Sub (pX q) t0\<rparr>;
          p = p\<lparr>pY := fe_Sub (pY p) t1\<rparr>;
          p = p\<lparr>pZ := fe_Sub (pX p) Two\<rparr>;
          q = q\<lparr>pX := fe_Mul (pY p) (pZ p)\<rparr>;
          p = p\<lparr>pY := fe_Sub (pZ q) t1\<rparr>;
          q = q\<lparr>pY := fe_Mul (pX p) (pY p)\<rparr>;
          q = q\<lparr>pZ := fe_Square (pX p)\<rparr>;
          q = q\<lparr>pZ := fe_Sub (pZ q) (pX p)\<rparr>;
          q = q\<lparr>pZ := fe_Sub (pZ q) (pX p)\<rparr>
      in q)"

subsection \<open>The variants of \<^verbatim>\<open>internal/group/ge.go\<close>\<close>

text \<open>
  The second source file holds another state of the same package, written against the
  function-style interface of the field package. Its methods agree with the ones above
  statement by statement (it reads the constant \<open>2d\<close> from the field package) except for \<^verbatim>\<open>ExtendedGroupElement.Double\<close> and the three methods below. Its
  \<^verbatim>\<open>ExtendedGroupElement.Double\<close> converts to projective coordinates and calls a method
  \<^verbatim>\<open>ProjectiveGroupElement.Double\<close> that neither file defines, so it has no model here.
\<close>

definition Proj_FromAffine_ge :: "ProjectiveGroupElement \<Rightarrow> int \<Rightarrow> int \<Rightarrow> ProjectiveGroupElement" where
  "Proj_FromAffine_ge v x y =
     (let v = v\<lparr>pX := FromBig x\<rparr>;
          v = v\<lparr>pY := FromBig y\<rparr>;
          v = v\<lparr>pZ := fe_One\<rparr>
      in v)"

definition Proj_ToExtended_ge_run ::
  "ProjectiveGroupElement \<Rightarrow> (fe_call list, ExtendedGroupElement) state" where
  "Proj_ToExtended_ge_run v = do {
     let r = Ext_var;
     let r = r\<lparr>eX := pX v\<rparr>;
     let r = r\<lparr>eY := pY v\<rparr>;
     let r = r\<lparr>eZ := pZ v\<rparr>;
     zinv \<leftarrow> Invert (pZ v);
     t \<leftarrow> Mul (pX v) (pY v);
     let r = r\<lparr>eT := t\<rparr>;
     t \<leftarrow> Mul (eT r) zinv;
     let r = r\<lparr>eT := t\<rparr>;
     State_Monad.return r
   }"

definition Proj_DoubleZ1_ge :: "ProjectiveGroupElement \<Rightarrow> ProjectiveGroupElement" where
  "Proj_DoubleZ1_ge v =
     (let q = Proj_var;
          p = v;
          t0 = fe_Square (pX p);
          t1 = fe_Square (pY p);
          p = p\<lparr>pZ := fe_Mul (pX p) (pY p)\<rparr>;
          q = q\<lparr>pX := fe_Add t0 t1\<rparr>;
          q = q\<lparr>pX := fe_Add (pX q) (pZ p)\<rparr>;
          q = q\<lparr>pX := fe_Add (pX q) (pZ p)\<rparr>;
          q = q\<lparr>pZ := fe_Neg t0\<rparr>;
          p = p\<lparr>pX := fe_Add (pZ q) t1\<rparr>;
          p = p\<lparr>pY := fe_Sub (pX q) t0\<rparr>;
          p = p\<lparr>pY := fe_Sub (pY p) t1\<rparr>;
          p = p\<lparr>pZ := fe_Sub (pX p) Two\<rparr>;
          q = q\<lparr>pX := fe_Mul (pY p) (pZ p)\<rparr>;
          p = p\<lparr>pY := fe_Sub (pZ q) t1\<rparr>;
          q = q\<lparr>pY := fe_Mul (pX p) (pY p)\<rparr>;
          q = q\<lparr>pZ := fe_Square (pX p)\<rparr>;
          q = q\<lparr>pZ := fe_Sub (pZ q) (pX p)\<rparr>;
          q = q\<lparr>pZ := fe_Sub (pZ q) (pX p)\<rparr>
      in q)"

section \<open>Pointers: the store\<close>

text \<open>
  The methods take their receiver and arguments by pointer. A memory is the list of the
  structs allocated so far, a pointer being an index into it, together with the trace of
  the accesses made through pointers. Dereferencing an address that is not allocated
  (\<^verbatim>\<open>nil\<close> included) panics, which is the result \<open>None\<close>. The two struct types live in
  separate memories: a pointer to one never aliases a pointer to the other. Local
  variables are not in the memory; nothing can alias them.
\<close>

type_synonym addr = nat

datatype access = Read addr | Write addr

record 'a mem =
  heap :: "'a list"
  trace :: "access list"

definition deref :: "'a mem \<Rightarrow> addr \<Rightarrow> ('a \<times> 'a mem) option" where
  "deref m p =
     (if p < length (heap m)
      then Some (heap m ! p, m\<lparr>trace := trace m @ [Read p]\<rparr>)
      else None)"

definition load :: "'a mem \<Rightarrow> addr \<Rightarrow> ('a \<Rightarrow> fe) \<Rightarrow> (fe \<times> 'a mem) option" where
  "load m p fld = map_option (\<lambda>(s, m). (fld s, m)) (deref m p)"

definition store :: "'a mem \<Rightarrow> addr \<Rightarrow> ('a \<Rightarrow> 'a) \<Rightarrow> 'a mem option" where
  "store m p upd =
     (if p < length (heap m)
      then Some (m\<lparr>heap := (heap m)[p := upd (heap m ! p)], trace := trace m @ [Write p]\<rparr>)
      else None)"

definition alloc :: "'a mem \<Rightarrow> 'a \<Rightarrow> 'a mem \<times> addr" where
  "alloc m x = (m\<lparr>heap := heap m @ [x]\<rparr>, length (heap m))"

text \<open>
  \<^verbatim>\<open>v.Add(p1, p2)\<close> on the memory: every statement loads its operands through the
  pointers, in the memory as it is when the statement runs, and stores through the
  receiver where the source writes. The result is the memory after the call and the
  returned pointer.
\<close>

definition Ext_Add_st ::
  "ExtendedGroupElement mem \<Rightarrow> addr \<Rightarrow> addr \<Rightarrow> addr \<Rightarrow> (ExtendedGroupElement mem \<times> addr) option" where
  "Ext_Add_st m v p1 p2 = do {
     (y1, m) \<leftarrow> load m p1 eY; (x1, m) \<leftarrow> load m p1 eX;
     let tmp1 = fe_Sub y1 x1;
     (y2, m) \<leftarrow> load m p2 eY; (x2, m) \<leftarrow> load m p2 eX;
     let tmp2 = fe_Sub y2 x2;
     let A = fe_Mul tmp1 tmp2;
     (y1, m) \<leftarrow> load m p1 eY; (x1, m) \<leftarrow> load m p1 eX;
     let tmp1 = fe_Add y1 x1;
     (y2, m) \<leftarrow> load m p2 eY; (x2, m) \<leftarrow> load m p2 eX;
     let tmp2 = fe_Add y2 x2;
     let B = fe_Mul tmp1 tmp2;
     (t1, m) \<leftarrow> load m p1 eT; (t2, m) \<leftarrow> load m p2 eT;
     let tmp1 = fe_Mul t1 t2;
     let C = fe_Mul tmp1 twoD;
     (z1, m) \<leftarrow> load m p1 eZ; (z2, m) \<leftarrow> load m p2 eZ;
     let tmp1 = fe_Mul z1 z2;
     let D = fe_Add tmp1 tmp1;
     let E = fe_Sub B A;
     let F = fe_Sub D C;
     let G = fe_Add D C;
     let H = fe_Add B A;
     m \<leftarrow> store m v (\<lambda>r. r\<lparr>eX := fe_Mul E F\<rparr>);
     m \<leftarrow> store m v (\<lambda>r. r\<lparr>eY := fe_Mul G H\<rparr>);
     m \<leftarrow> store m v (\<lambda>r. r\<lparr>eT := fe_Mul E H\<rparr>);
     m \<leftarrow> store m v (\<lambda>r. r\<lparr>eZ := fe_Mul F G\<rparr>);
     Some (m, v)
   }"

text \<open>
  \<^verbatim>\<open>v.DoubleZ1()\<close> on the memory: \<^verbatim>\<open>p = *v\<close> copies the receiver into a local, the body
  works on the locals, and \<^verbatim>\<open>return &q\<close> moves \<open>q\<close> to a newly allocated cell.
\<close>

definition Proj_DoubleZ1_st ::
  "ProjectiveGroupElement mem \<Rightarrow> addr \<Rightarrow> (ProjectiveGroupElement mem \<times> addr) option" where
  "Proj_DoubleZ1_st m v = do {
     (p, m) \<leftarrow> deref m v;
     Some (alloc m (Proj_DoubleZ1 p))
   }"

definition Proj_DoubleZ1_ge_st ::
  "ProjectiveGroupElement mem \<Rightarrow> addr \<Rightarrow> (ProjectiveGroupElement mem \<times> addr) option" where
  "Proj_DoubleZ1_ge_st m v = do {
     (p, m) \<leftarrow> deref m v;
     Some (alloc m (Proj_DoubleZ1_ge p))
   }"

section \<open>Representation invariants\<close>

text \<open>The curve equation \<open>-x\<^sup>2 + y\<^sup>2 = 1 + d x\<^sup>2 y\<^sup>2\<close> for an affine pair of integers.\<close>

definition on_curve :: "int \<times> int \<Rightarrow> bool" where
  "on_curve pt =
     (let x = FromBig (fst pt); y = FromBig (snd pt)
      in - (x * x) + y * y = 1 + D * (x * x) * (y * y))"

text \<open>The cross-invariant of extended coordinates.\<close>

definition cross_invariant :: "ExtendedGroupElement \<Rightarrow> bool" where
  "cross_invariant P \<longleftrightarrow> eT P * eZ P = eX P * eY P"

text \<open>A valid extended point: the cross-invariant holds and the affine point that
  \<^verbatim>\<open>ToAffine\<close> extracts lies on the curve.\<close>

definition valid_ext :: "ExtendedGroupElement \<Rightarrow> bool" where
  "valid_ext P \<longleftrightarrow> cross_invariant P \<and> on_curve (Ext_ToAffine P)"

text \<open>The base point of the curve, a concrete point to evaluate the operations on.\<close>

definition Bx :: int where
  "Bx = 15112221349535400772501151409588531511454012693041857206046113283949847762202"

definition By :: int where
  "By = 46316835694926478169428394003475163141307993866256225615783033603165251855960"

section \<open>Facts about the field\<close>

lemmas fe_ops = fe_Zero_def fe_One_def fe_Add_def fe_Sub_def fe_Neg_def fe_Mul_def
  fe_Square_def

lemma FromBig_ToBig [simp]: "FromBig (ToBig a) = a"
  unfolding ToBig_def by transfer simp

lemma ToBig_FromBig: "ToBig (FromBig x) = x mod fe_p"
  unfolding ToBig_def by transfer simp

lemma ToBig_0 [simp]: "ToBig 0 = 0"
  unfolding ToBig_def by transfer simp

lemma FromBig_of_int: "FromBig x = of_int x"
proof -
  have nat: "FromBig (int n) = of_nat n" for n
  proof (induction n)
    case 0
    have "FromBig 0 = 0" by transfer simp
    then show ?case by simp
  next
    case (Suc n)
    have "FromBig (int (Suc n)) = FromBig (int n) + 1"
      by transfer (simp add: mod_simps add.commute)
    with Suc show ?case by simp
  qed
  have neg: "FromBig (- y) = - FromBig y" for y
    by transfer (simp add: mod_simps)
  show ?thesis
  proof (cases "0 \<le> x")
    case True
    then show ?thesis using nat [of "nat x"] by simp
  next
    case False
    then have "FromBig (- (- x)) = - of_nat (nat (- x))"
      using nat [of "nat (- x)"] neg [of "- x"] by simp
    with False show ?thesis by simp
  qed
qed

lemma of_int_fe_p: "(of_int fe_p :: fe) = 0"
  unfolding FromBig_of_int [symmetric] by transfer simp

lemma FromBig_mult: "FromBig a * FromBig b = FromBig (a * b)"
  by (simp add: FromBig_of_int)

lemma FromBig_cong: "a = b + q * fe_p \<Longrightarrow> FromBig a = FromBig b"
  by (simp add: FromBig_of_int of_int_fe_p)

subsection \<open>Inversion\<close>

text \<open>The Bezout coefficients, with one recursive call a step when they are evaluated.\<close>

lemma bezw_Let [code]:
  "bezw x y =
     (if y = 0 then (1, 0)
      else (let r = bezw y (x mod y) in (snd r, fst r - snd r * int (x div y))))"
  by (subst bezw.simps) (simp add: Let_def)

lemma fe_unit_Invert:
  assumes "fe_unit z"
  shows "z * fe_Invert z = 1"
proof -
  let ?a = "Rep_fe z"
  let ?u = "fst (bezw (nat ?a) (nat fe_p))"
  let ?v = "snd (bezw (nat ?a) (nat fe_p))"
  have a0: "0 \<le> ?a" using Rep_fe [of z] by simp
  have "int (gcd (nat ?a) (nat fe_p)) = ?u * int (nat ?a) + ?v * int (nat fe_p)"
    by (rule bezw_aux)
  moreover have "int (gcd (nat ?a) (nat fe_p)) = gcd ?a fe_p"
    using a0 fe_p_pos by (simp add: gcd_int_def)
  ultimately have bez: "?u * ?a + ?v * fe_p = 1"
    using assms a0 fe_p_pos by (simp add: fe_unit_def)
  have "?a * ?u = 1 + (- ?v) * fe_p"
    using bez by (simp add: algebra_simps)
  then have "(?a * ?u) mod fe_p = (1 + (- ?v) * fe_p) mod fe_p"
    by simp
  also have "\<dots> = 1 mod fe_p"
    by (rule mod_mult_self1)
  finally have "(?a * ?u) mod fe_p = 1"
    using fe_p_gt_1 by simp
  then have "z * FromBig ?u = 1"
    by transfer (simp add: mod_simps)
  with assms show ?thesis by (simp add: fe_Invert_def)
qed

lemma fe_not_unit_Invert: "\<not> fe_unit z \<Longrightarrow> fe_Invert z = 0"
  by (simp add: fe_Invert_def)

lemma fe_unitI:
  assumes "z * u = 1"
  shows "fe_unit z"
proof -
  from assms have m: "(Rep_fe z * Rep_fe u) mod fe_p = 1"
    by transfer simp
  have "coprime (Rep_fe z) fe_p"
  proof (rule coprimeI)
    fix c assume "c dvd Rep_fe z" "c dvd fe_p"
    then have "c dvd (Rep_fe z * Rep_fe u) mod fe_p"
      by (simp add: dvd_mod)
    with m show "is_unit c" by simp
  qed
  then show ?thesis by (simp add: fe_unit_def coprime_iff_gcd_eq_1)
qed

lemma fe_unit_mult: "fe_unit (a * b) \<longleftrightarrow> fe_unit a \<and> fe_unit b"
proof
  assume ab: "fe_unit (a * b)"
  have "a * (b * fe_Invert (a * b)) = 1" "b * (a * fe_Invert (a * b)) = 1"
    using fe_unit_Invert [OF ab] by (simp_all add: mult_ac)
  then show "fe_unit a \<and> fe_unit b"
    by (blast intro: fe_unitI)
next
  assume "fe_unit a \<and> fe_unit b"
  then have "a * fe_Invert a = 1" "b * fe_Invert b = 1"
    by (simp_all add: fe_unit_Invert)
  then have "(a * fe_Invert a) * (b * fe_Invert b) = 1"
    by simp
  then have "(a * b) * (fe_Invert a * fe_Invert b) = 1"
    by (simp add: mult_ac)
  then show "fe_unit (a * b)"
    by (rule fe_unitI)
qed

lemma fe_Invert_unique:
  assumes "z * u = 1"
  shows "fe_Invert z = u"
proof -
  have "z * fe_Invert z = 1"
    using assms by (blast intro: fe_unitI fe_unit_Invert)
  then have "u * (z * fe_Invert z) = u"
    by simp
  then have "(z * u) * fe_Invert z = u"
    by (simp add: mult_ac)
  with assms show ?thesis by simp
qed

lemma fe_Invert_0 [simp]: "fe_Invert 0 = 0"
proof (rule fe_not_unit_Invert, rule notI)
  assume "fe_unit 0"
  then have "(0::fe) * fe_Invert 0 = 1" by (rule fe_unit_Invert)
  then show False by simp
qed

lemma fe_Invert_1 [simp]: "fe_Invert 1 = 1"
  by (rule fe_Invert_unique) simp

lemma fe_Invert_mult: "fe_Invert (a * b) = fe_Invert a * fe_Invert b"
proof (cases "fe_unit a \<and> fe_unit b")
  case True
  then have "(a * fe_Invert a) * (b * fe_Invert b) = 1"
    by (simp add: fe_unit_Invert)
  then have "(a * b) * (fe_Invert a * fe_Invert b) = 1"
    by (simp add: mult_ac)
  then show ?thesis by (rule fe_Invert_unique)
next
  case False
  then have "fe_Invert (a * b) = 0"
    by (simp add: fe_not_unit_Invert fe_unit_mult)
  moreover from False have "fe_Invert a = 0 \<or> fe_Invert b = 0"
    by (auto simp: fe_not_unit_Invert)
  ultimately show ?thesis by auto
qed

text \<open>Where the exponentiation \<open>z\<^bsup>p-2\<^esup>\<close> inverts \<open>z\<close>, and at zero, it is the value of
  \<open>fe_Invert\<close>.\<close>

lemma fe_Invert_power:
  "z * z ^ (2 ^ 255 - 21) = 1 \<Longrightarrow> fe_Invert z = z ^ (2 ^ 255 - 21)"
  "fe_Invert 0 = 0 ^ (2 ^ 255 - 21)"
  by (simp_all add: fe_Invert_unique)

text \<open>The residues 2, 4 and their negatives are invertible: \<open>2 (2\<^sup>2\<^sup>5\<^sup>4 - 9) = p + 1\<close>.\<close>

lemma fe_unit_2: "fe_unit 2"
proof (rule fe_unitI)
  have "(2::fe) * of_int (2 ^ 254 - 9) = of_int (2 * (2 ^ 254 - 9))"
    by simp
  also have "(2 * (2 ^ 254 - 9) :: int) = fe_p + 1"
    by (simp add: fe_p_def)
  also have "(of_int (fe_p + 1) :: fe) = 1"
    by (simp add: of_int_fe_p)
  finally show "(2::fe) * of_int (2 ^ 254 - 9) = 1" .
qed

lemma fe_unit_4: "fe_unit 4"
proof -
  have "fe_unit (2 * 2)" by (simp only: fe_unit_mult fe_unit_2)
  then show ?thesis by simp
qed

lemma fe_unit_neg: "fe_unit (- a) \<longleftrightarrow> fe_unit a"
proof
  assume "fe_unit (- a)"
  then have "a * (- fe_Invert (- a)) = 1"
    using fe_unit_Invert [of "- a"] by simp
  then show "fe_unit a" by (rule fe_unitI)
next
  assume "fe_unit a"
  then have "(- a) * (- fe_Invert a) = 1"
    using fe_unit_Invert [of a] by simp
  then show "fe_unit (- a)" by (rule fe_unitI)
qed

text \<open>Scaling numerator and denominator by a common factor does not change the quotient,
  provided the factor is invertible or the denominator is not.\<close>

lemma scaled_quotient:
  assumes "fe_unit k \<or> \<not> fe_unit b"
  shows "(k * a) * fe_Invert (k * b) = a * fe_Invert b"
proof (cases "fe_unit b")
  case True
  with assms have "k * fe_Invert k = 1" by (simp add: fe_unit_Invert)
  then have "(k * fe_Invert k) * (a * fe_Invert b) = a * fe_Invert b" by simp
  then show ?thesis by (simp add: fe_Invert_mult mult_ac)
next
  case False
  then show ?thesis by (simp add: fe_Invert_mult fe_not_unit_Invert)
qed

subsection \<open>The constants\<close>

lemma FieldElement_of_int:
  "FieldElement l0 l1 l2 l3 l4 =
     of_int (l0 + l1 * 2 ^ 51 + l2 * 2 ^ 102 + l3 * 2 ^ 153 + l4 * 2 ^ 204)"
  by (simp only: FieldElement_def FromBig_of_int)

lemma D_value:
  "D = FromBig 37095705934669439343138083508754565189542113879843219016388785533085940283555"
  by (simp add: D_def FieldElement_def)

text \<open>The constant \<open>twoD\<close> is twice the constant \<open>D\<close>.\<close>

lemma twoD_eq: "twoD = 2 * D"
proof -
  have "(1859910466990425 + 932731440258426 * 2 ^ 51 + 1072319116312658 * 2 ^ 102
          + 1815898335770999 * 2 ^ 153 + 633789495995903 * 2 ^ 204 :: int)
        = 2 * (929955233495203 + 466365720129213 * 2 ^ 51 + 1662059464998953 * 2 ^ 102
          + 2033849074728123 * 2 ^ 153 + 1442794654840575 * 2 ^ 204) - fe_p"
    by (simp add: fe_p_def)
  then have "twoD = of_int (2 * (929955233495203 + 466365720129213 * 2 ^ 51
          + 1662059464998953 * 2 ^ 102 + 2033849074728123 * 2 ^ 153
          + 1442794654840575 * 2 ^ 204) - fe_p)"
    by (simp only: twoD_def FieldElement_of_int)
  also have "\<dots> = 2 * D"
    unfolding D_def FieldElement_of_int of_int_diff of_int_fe_p of_int_mult by simp
  finally show ?thesis .
qed

text \<open>The constant \<open>D\<close> is \<open>-121665/121666\<close>.\<close>

lemma D_ratio: "D * FromBig 121666 = FromBig (- 121665)"
  unfolding D_value FromBig_mult
  by (rule FromBig_cong [where q = "77955"]) (simp add: fe_p_def)

lemma Two_eq: "Two = 2"
  by (simp add: Two_def FromBig_of_int)

subsection \<open>The base point lies on the curve\<close>

lemma Bx_square: "FromBig Bx * FromBig Bx = FromBig 26187595835145689230469591415084376402084551887632582719101735842039498021991"
  unfolding FromBig_mult
  by (rule FromBig_cong [where q = "3944643120641682540557488748386534817562863454810087094083181913524639656337"]) (simp add: Bx_def fe_p_def)

lemma By_square: "FromBig By * FromBig By = FromBig 37053468555941182535542715202780130513046395093004980492626426882532201484768"
  unfolding FromBig_mult
  by (rule FromBig_cong [where q = "37053468555941182535542715202780130513046395093004980492626426882532201484768"]) (simp add: By_def fe_p_def)

lemma D_Bx_square: "D * FromBig 26187595835145689230469591415084376402084551887632582719101735842039498021991 = FromBig 45925948435572007145069502170446592761695376174804512530996725752748131570562"
  unfolding FromBig_mult D_value
  by (rule FromBig_cong [where q = "16779166187174577975451292873628643683728414202820820819847581227016496542207"]) (simp add: fe_p_def)

lemma D_Bx_By_square: "FromBig 45925948435572007145069502170446592761695376174804512530996725752748131570562 * FromBig 37053468555941182535542715202780130513046395093004980492626426882532201484768 = FromBig 10865872720795493305073123787695754110961843205372397773524691040492703462776"
  unfolding FromBig_mult
  by (rule FromBig_cong [where q = "29392606998766084572844481389085819367485040751874888019837904481758804205160"]) (simp add: fe_p_def)

lemma base_point_equation: "- FromBig 26187595835145689230469591415084376402084551887632582719101735842039498021991 + FromBig 37053468555941182535542715202780130513046395093004980492626426882532201484768 = 1 + FromBig 10865872720795493305073123787695754110961843205372397773524691040492703462776"
proof -
  have "- FromBig 26187595835145689230469591415084376402084551887632582719101735842039498021991 + FromBig 37053468555941182535542715202780130513046395093004980492626426882532201484768 = FromBig (- 26187595835145689230469591415084376402084551887632582719101735842039498021991 + 37053468555941182535542715202780130513046395093004980492626426882532201484768)"
    by (simp add: FromBig_of_int)
  also have "\<dots> = FromBig (1 + 10865872720795493305073123787695754110961843205372397773524691040492703462776)"
    by simp
  also have "\<dots> = 1 + FromBig 10865872720795493305073123787695754110961843205372397773524691040492703462776"
    by (simp add: FromBig_of_int)
  finally show ?thesis .
qed

lemma base_point_on_curve: "on_curve (Bx, By)"
  by (simp only: on_curve_def Let_def fst_conv snd_conv Bx_square By_square D_Bx_square
      D_Bx_By_square base_point_equation)

section \<open>The operations in closed form\<close>

lemma Ext_Add_eq:
  "Ext_Add v p1 p2 =
     (let A = (eY p1 - eX p1) * (eY p2 - eX p2);
          B = (eY p1 + eX p1) * (eY p2 + eX p2);
          C = eT p1 * eT p2 * twoD;
          D = eZ p1 * eZ p2 + eZ p1 * eZ p2;
          E = B - A; F = D - C; G = D + C; H = B + A
      in \<lparr>eX = E * F, eY = G * H, eZ = F * G, eT = E * H\<rparr>)"
  by (cases v) (simp add: Ext_Add_def fe_ops Let_def)

text \<open>\<^verbatim>\<open>Add\<close> overwrites all four fields: what the receiver held before does not matter.\<close>

lemma Ext_Add_receiver: "Ext_Add v p1 p2 = Ext_Add r p1 p2"
  by (simp add: Ext_Add_eq)

lemma Ext_Double_eq:
  "Ext_Double v =
     (let A = eX v * eX v;
          B = eY v * eY v;
          C = eZ v * eZ v + eZ v * eZ v;
          E = (eX v + eY v) * (eX v + eY v) - A - B;
          G = - A + B; F = G - C; H = - A - B
      in \<lparr>eX = E * F, eY = G * H, eZ = F * G, eT = E * H\<rparr>)"
  by (cases v) (simp add: Ext_Double_def fe_ops Let_def)

lemma Ext_Zero_eq: "Ext_Zero w = \<lparr>eX = 0, eY = 1, eZ = 1, eT = 0\<rparr>"
  by (cases w) (simp add: Ext_Zero_def fe_ops)

lemma Ext_ToAffine_eq:
  "Ext_ToAffine v = (ToBig (eX v * fe_Invert (eZ v)), ToBig (eY v * fe_Invert (eZ v)))"
  by (simp add: Ext_ToAffine_def fe_ops Let_def)

lemma Proj_ToExtended_eq:
  "Proj_ToExtended v =
     \<lparr>eX = pX v * pZ v, eY = pY v * pZ v, eZ = pZ v * pZ v, eT = pX v * pY v\<rparr>"
  by (simp add: Proj_ToExtended_def Proj_ToExtended_run_def Mul_def Square_def call_def fe_ops
      Ext_var_def)

lemma Proj_DoubleZ1_eq:
  "Proj_DoubleZ1 v =
     (let C = pX v * pX v; D = pY v * pY v; B = (pX v + pY v) * (pX v + pY v);
          E = - C; F = E + D
      in \<lparr>pX = (B - C - D) * (F - Two), pY = F * (E - D), pZ = F * F - F - F\<rparr>)"
  by (simp add: Proj_DoubleZ1_def Proj_var_def fe_ops Let_def)

text \<open>The two files compute the same \<^verbatim>\<open>DoubleZ1\<close>; the \<^verbatim>\<open>ToExtended\<close> of \<^verbatim>\<open>ge.go\<close> keeps
  the coordinates and divides \<open>X Y\<close> by \<open>Z\<close>, at the price of an inversion.\<close>

lemma Proj_DoubleZ1_ge_eq: "Proj_DoubleZ1_ge v = Proj_DoubleZ1 v"
  by (simp add: Proj_DoubleZ1_def Proj_DoubleZ1_ge_def fe_ops Let_def algebra_simps)

lemma Proj_ToExtended_ge_run_eq:
  "run_state (Proj_ToExtended_ge_run v) log =
     (\<lparr>eX = pX v, eY = pY v, eZ = pZ v, eT = pX v * pY v * fe_Invert (pZ v)\<rparr>,
      log @ [Call_Invert, Call_Mul, Call_Mul])"
  by (simp add: Proj_ToExtended_ge_run_def Mul_def Invert_def call_def fe_ops Ext_var_def)

lemma load_allocated:
  "p < length (heap m) \<Longrightarrow>
     load m p fld = Some (fld (heap m ! p), m\<lparr>trace := trace m @ [Read p]\<rparr>)"
  by (simp add: load_def deref_def)

lemma store_allocated:
  "p < length (heap m) \<Longrightarrow>
     store m p upd =
       Some (m\<lparr>heap := (heap m)[p := upd (heap m ! p)], trace := trace m @ [Write p]\<rparr>)"
  by (simp add: store_def)

section \<open>Valid points\<close>

lemma Ext_ToAffine_scaled:
  assumes "fe_unit k \<or> \<not> fe_unit (eZ R)"
    and "eX Q = k * eX R" "eY Q = k * eY R" "eZ Q = k * eZ R"
  shows "Ext_ToAffine Q = Ext_ToAffine R"
  using assms by (simp add: Ext_ToAffine_eq scaled_quotient)

text \<open>The \<open>Z\<close> coordinate of a valid point is invertible: otherwise \<^verbatim>\<open>ToAffine\<close> returns
  \<open>(0, 0)\<close>, which is not on the curve.\<close>

lemma valid_ext_unit:
  assumes "valid_ext P"
  shows "fe_unit (eZ P)"
proof (rule ccontr)
  assume "\<not> fe_unit (eZ P)"
  then have "fe_Invert (eZ P) = 0" by (rule fe_not_unit_Invert)
  then have "Ext_ToAffine P = (0, 0)" by (simp add: Ext_ToAffine_eq)
  moreover have "\<not> on_curve (0, 0)"
  proof -
    have "FromBig 0 = 0" by (simp add: FromBig_of_int)
    then show ?thesis by (simp add: on_curve_def)
  qed
  ultimately show False using assms by (simp add: valid_ext_def)
qed

text \<open>The curve equation in extended coordinates: \<open>-X\<^sup>2 + Y\<^sup>2 = Z\<^sup>2 + d T\<^sup>2\<close>.\<close>

lemma valid_ext_curve:
  assumes "valid_ext P"
  shows "- (eX P * eX P) + eY P * eY P = eZ P * eZ P + D * (eT P * eT P)"
proof -
  define zi where "zi = fe_Invert (eZ P)"
  define x where "x = eX P * zi"
  define y where "y = eY P * zi"
  have u: "eZ P * zi = 1"
    unfolding zi_def using assms by (intro fe_unit_Invert valid_ext_unit)
  have X: "eX P = x * eZ P"
  proof -
    have "x * eZ P = eX P * (eZ P * zi)" by (simp add: x_def mult_ac)
    then show ?thesis by (simp add: u)
  qed
  have Y: "eY P = y * eZ P"
  proof -
    have "y * eZ P = eY P * (eZ P * zi)" by (simp add: y_def mult_ac)
    then show ?thesis by (simp add: u)
  qed
  have T: "eT P = x * y * eZ P"
  proof -
    have "eT P = (eT P * eZ P) * zi"
      using u by (simp add: mult.assoc)
    also have "\<dots> = (eX P * eY P) * zi"
      using assms by (simp add: valid_ext_def cross_invariant_def)
    also have "\<dots> = x * (y * eZ P)"
      by (simp add: x_def Y mult_ac)
    finally show ?thesis by (simp add: mult_ac)
  qed
  have c: "- (x * x) + y * y = 1 + D * (x * x) * (y * y)"
    using assms
    by (simp add: valid_ext_def on_curve_def Ext_ToAffine_eq Let_def x_def y_def zi_def)
  have "- (eX P * eX P) + eY P * eY P = (- (x * x) + y * y) * (eZ P * eZ P)"
    by (subst (1 2) X, subst (1 2) Y) (simp add: algebra_simps)
  also have "\<dots> = (1 + D * (x * x) * (y * y)) * (eZ P * eZ P)"
    by (simp only: c)
  also have "\<dots> = eZ P * eZ P + D * ((x * y * eZ P) * (x * y * eZ P))"
    by (simp add: algebra_simps)
  also have "\<dots> = eZ P * eZ P + D * (eT P * eT P)"
    by (simp only: T [symmetric])
  finally show ?thesis .
qed

text \<open>The base point, brought into extended coordinates, is a valid point.\<close>

lemma base_point_valid: "valid_ext (Ext_FromAffine Ext_var Bx By)"
proof -
  have "Ext_ToAffine (Ext_FromAffine Ext_var Bx By) = (ToBig (FromBig Bx), ToBig (FromBig By))"
    by (simp add: Ext_ToAffine_eq Ext_FromAffine_def fe_ops)
  then have "on_curve (Ext_ToAffine (Ext_FromAffine Ext_var Bx By))"
    using base_point_on_curve by (simp add: on_curve_def Let_def)
  then show ?thesis
    by (simp add: valid_ext_def cross_invariant_def Ext_FromAffine_def fe_ops)
qed

text \<open>
  The coordinates that the addition formula yields on equal arguments are \<open>-4\<close> times
  those of the doubling formula, once \<open>W = -X\<^sup>2 + Y\<^sup>2\<close> is known to be \<open>Z\<^sup>2 + d T\<^sup>2\<close>.
\<close>

lemma add_self_core:
  fixes X Y Z T W d :: fe
  assumes "W = Z * Z + d * (T * T)"
  shows "((Y + X) * (Y + X) - (Y - X) * (Y - X)) * (Z * Z + Z * Z - T * T * (2 * d))
           = - 4 * (((X + Y) * (X + Y) - X * X - Y * Y) * (W - (Z * Z + Z * Z)))"
    and "(Z * Z + Z * Z + T * T * (2 * d)) * ((Y + X) * (Y + X) + (Y - X) * (Y - X))
           = - 4 * (W * (- (X * X) - Y * Y))"
    and "(Z * Z + Z * Z - T * T * (2 * d)) * (Z * Z + Z * Z + T * T * (2 * d))
           = - 4 * ((W - (Z * Z + Z * Z)) * W)"
  unfolding assms by (simp_all add: algebra_simps)

section \<open>The claims\<close>

text \<open>
  Claim C1. For every extended point \<open>P\<close> that satisfies the representation invariants
  (the cross-invariant \<open>T Z = X Y\<close>, and its affine point lies on the curve), \<open>Add(P, P)\<close>
  and \<open>Double(P)\<close> represent the same affine point: \<^verbatim>\<open>ToAffine\<close> returns the same pair for
  both, whatever the receiver of \<^verbatim>\<open>Add\<close> held before.
\<close>

theorem Add_self_agrees_with_Double:
  assumes "valid_ext P"
  shows "Ext_ToAffine (Ext_Add v P P) = Ext_ToAffine (Ext_Double P)"
proof (rule Ext_ToAffine_scaled [where k = "- 4"])
  show "fe_unit (- 4) \<or> \<not> fe_unit (eZ (Ext_Double P))"
    by (simp add: fe_unit_neg fe_unit_4)
  note W = valid_ext_curve [OF assms]
  show "eX (Ext_Add v P P) = - 4 * eX (Ext_Double P)"
    using add_self_core(1) [OF W] by (simp add: Ext_Add_eq Ext_Double_eq Let_def twoD_eq)
  show "eY (Ext_Add v P P) = - 4 * eY (Ext_Double P)"
    using add_self_core(2) [OF W] by (simp add: Ext_Add_eq Ext_Double_eq Let_def twoD_eq)
  show "eZ (Ext_Add v P P) = - 4 * eZ (Ext_Double P)"
    using add_self_core(3) [OF W] by (simp add: Ext_Add_eq Ext_Double_eq Let_def twoD_eq)
qed

text \<open>The base point satisfies the hypothesis.\<close>

theorem Add_self_agrees_with_Double_witness:
  "valid_ext (Ext_FromAffine Ext_var Bx By)
   \<and> Ext_ToAffine
         (Ext_Add Ext_var (Ext_FromAffine Ext_var Bx By) (Ext_FromAffine Ext_var Bx By))
       = Ext_ToAffine (Ext_Double (Ext_FromAffine Ext_var Bx By))"
  using base_point_valid Add_self_agrees_with_Double [OF base_point_valid, of Ext_var]
  by blast

text \<open>
  Claim C2. \<^verbatim>\<open>ProjectiveGroupElement.FromAffine(x, y)\<close> is to set \<open>X = x mod p\<close>,
  \<open>Y = y mod p\<close> and \<open>Z = 1\<close>. The method of the main file ends with \<^verbatim>\<open>v.Z.Zero()\<close>: on
  the affine identity \<open>(0, 1)\<close> it leaves \<open>Z = 0\<close>, not \<open>1\<close>, and \<^verbatim>\<open>ToAffine\<close> then returns
  \<open>(0, 0)\<close> instead of \<open>(0, 1)\<close>. The method of \<^verbatim>\<open>ge.go\<close> sets \<open>Z = 1\<close>.
\<close>

theorem Proj_FromAffine_clears_Z:
  "Proj_FromAffine Proj_var 0 1 = \<lparr>pX = 0, pY = 1, pZ = 0\<rparr>
   \<and> pZ (Proj_FromAffine Proj_var 0 1) \<noteq> 1
   \<and> Proj_ToAffine (Proj_FromAffine Proj_var 0 1) = (0, 0)
   \<and> Proj_FromAffine_ge Proj_var 0 1 = \<lparr>pX = 0, pY = 1, pZ = 1\<rparr>
   \<and> Proj_ToAffine (Proj_FromAffine_ge Proj_var 0 1) = (0, 1)"
proof -
  have "ToBig 1 = 1"
    unfolding ToBig_def by transfer simp
  then show ?thesis
    by (simp add: Proj_FromAffine_def Proj_FromAffine_ge_def Proj_ToAffine_def Proj_var_def
        fe_ops Let_def FromBig_of_int)
qed

text \<open>
  Claim C3. For every projective point \<open>(X, Y, Z)\<close>, \<^verbatim>\<open>ToExtended\<close> returns the extended
  point \<open>X' = X Z\<close>, \<open>Y' = Y Z\<close>, \<open>T' = X Y\<close>, \<open>Z' = Z\<^sup>2\<close>, and a run of it calls the field
  package for exactly three multiplications and one squaring, and never for an
  inversion.
\<close>

theorem ToExtended_formula_and_cost:
  "run_state (Proj_ToExtended_run v) log =
     (\<lparr>eX = pX v * pZ v, eY = pY v * pZ v, eZ = (pZ v)\<^sup>2, eT = pX v * pY v\<rparr>,
      log @ [Call_Mul, Call_Mul, Call_Mul, Call_Square])"
  by (simp add: Proj_ToExtended_run_def Mul_def Square_def call_def fe_ops Ext_var_def
      power2_eq_square)

text \<open>
  Claim C4. \<^verbatim>\<open>ExtendedGroupElement.Double\<close> computes the dedicated doubling formula of
  extended coordinates on every input: with \<open>A = X\<^sup>2\<close>, \<open>B = Y\<^sup>2\<close>, \<open>C = 2 Z\<^sup>2\<close>, \<open>D = -A\<close>,
  \<open>E = (X + Y)\<^sup>2 - A - B\<close>, \<open>G = D + B\<close>, \<open>F = G - C\<close>, \<open>H = D - B\<close> the result is
  \<open>X' = E F\<close>, \<open>Y' = G H\<close>, \<open>T' = E H\<close>, \<open>Z' = F G\<close>.
\<close>

theorem Double_dedicated_formula:
  "Ext_Double v =
     (let A = (eX v)\<^sup>2;
          B = (eY v)\<^sup>2;
          C = 2 * (eZ v)\<^sup>2;
          D = - A;
          E = (eX v + eY v)\<^sup>2 - A - B;
          G = D + B;
          F = G - C;
          H = D - B
      in \<lparr>eX = E * F, eY = G * H, eZ = F * G, eT = E * H\<rparr>)"
  by (simp add: Ext_Double_eq Let_def power2_eq_square)

text \<open>
  Claim C5. \<^verbatim>\<open>ExtendedGroupElement.Add\<close> is safe under aliasing: every load of a field of
  \<open>p1\<close> or \<open>p2\<close> comes before any store into the receiver. Whenever the receiver and the
  two arguments point to allocated structs, whether the three pointers are distinct, the
  receiver is one of the arguments, or all three are the same pointer (\<^verbatim>\<open>v.Add(v, v)\<close>),
  the call makes twelve loads through \<open>p1\<close> and \<open>p2\<close> and then four stores through \<open>v\<close>; it
  leaves in the receiver the sum of independent copies of the arguments, taken before
  the call and added into any receiver \<open>r\<close>; it changes no other struct and returns the
  receiver.
\<close>

theorem Add_alias_safe:
  assumes "v < length (heap m)" and "p1 < length (heap m)" and "p2 < length (heap m)"
  shows "Ext_Add_st m v p1 p2 =
           Some (\<lparr>heap = (heap m)[v := Ext_Add r (heap m ! p1) (heap m ! p2)],
                  trace = trace m @
                    [Read p1, Read p1, Read p2, Read p2, Read p1, Read p1, Read p2, Read p2,
                     Read p1, Read p2, Read p1, Read p2,
                     Write v, Write v, Write v, Write v]\<rparr>, v)"
proof -
  have "Ext_Add_st m v p1 p2 =
           Some (\<lparr>heap = (heap m)[v := Ext_Add (heap m ! v) (heap m ! p1) (heap m ! p2)],
                  trace = trace m @
                    [Read p1, Read p1, Read p2, Read p2, Read p1, Read p1, Read p2, Read p2,
                     Read p1, Read p2, Read p1, Read p2,
                     Write v, Write v, Write v, Write v]\<rparr>, v)"
    using assms
    by (simp add: Ext_Add_st_def load_allocated store_allocated Ext_Add_def Let_def)
  then show ?thesis
    by (simp only: Ext_Add_receiver [of "heap m ! v" _ _ r])
qed

text \<open>The in-place self-addition \<^verbatim>\<open>v.Add(v, v)\<close> of the base point.\<close>

theorem Add_alias_safe_witness:
  "(0::nat) < length (heap \<lparr>heap = [Ext_FromAffine Ext_var Bx By], trace = []\<rparr>)
   \<and> Ext_Add_st \<lparr>heap = [Ext_FromAffine Ext_var Bx By], trace = []\<rparr> 0 0 0
       = Some (\<lparr>heap = [Ext_Add Ext_var (Ext_FromAffine Ext_var Bx By)
                            (Ext_FromAffine Ext_var Bx By)],
                 trace = [Read 0, Read 0, Read 0, Read 0, Read 0, Read 0, Read 0, Read 0,
                          Read 0, Read 0, Read 0, Read 0,
                          Write 0, Write 0, Write 0, Write 0]\<rparr>, 0)"
  using Add_alias_safe
    [of 0 "\<lparr>heap = [Ext_FromAffine Ext_var Bx By], trace = []\<rparr>" 0 0 Ext_var]
  by simp

text \<open>
  Claim C6. The cross-invariant \<open>T Z = X Y\<close> holds for the output of every operation that
  produces an extended point, \<^verbatim>\<open>Zero\<close>, \<^verbatim>\<open>FromAffine\<close>, \<^verbatim>\<open>Add\<close>, \<^verbatim>\<open>Double\<close> and the projective
  \<^verbatim>\<open>ToExtended\<close>, on all inputs; \<^verbatim>\<open>Add\<close> and \<^verbatim>\<open>Double\<close> need not be given inputs that
  satisfy it.
\<close>

theorem cross_invariant_outputs:
  "cross_invariant (Ext_Zero v)
   \<and> cross_invariant (Ext_FromAffine v x y)
   \<and> cross_invariant (Ext_Add v p1 p2)
   \<and> cross_invariant (Ext_Double v)
   \<and> cross_invariant (Proj_ToExtended q)"
  by (simp add: cross_invariant_def Ext_Zero_def Ext_FromAffine_def Ext_Add_eq Ext_Double_eq
      Proj_ToExtended_eq fe_ops Let_def mult_ac)

text \<open>
  Claim C7. The point \<open>(0, 1, 1, 0)\<close> that \<^verbatim>\<open>Zero\<close> produces is a two-sided identity of
  \<^verbatim>\<open>Add\<close>: \<open>Add(P, Zero())\<close> and \<open>Add(Zero(), P)\<close> represent the affine point of \<open>P\<close>. This
  holds for every extended point \<open>P\<close>, the valid ones included.
\<close>

theorem Zero_is_identity:
  "Ext_ToAffine (Ext_Add v P (Ext_Zero w)) = Ext_ToAffine P
   \<and> Ext_ToAffine (Ext_Add v (Ext_Zero w) P) = Ext_ToAffine P"
proof -
  have k: "fe_unit (4 * eZ P) \<or> \<not> fe_unit (eZ P)"
    by (simp add: fe_unit_mult fe_unit_4)
  have "Ext_ToAffine (Ext_Add v P (Ext_Zero w)) = Ext_ToAffine P"
    by (rule Ext_ToAffine_scaled [OF k])
      (simp_all add: Ext_Add_eq Ext_Zero_eq Let_def algebra_simps)
  moreover have "Ext_ToAffine (Ext_Add v (Ext_Zero w) P) = Ext_ToAffine P"
    by (rule Ext_ToAffine_scaled [OF k])
      (simp_all add: Ext_Add_eq Ext_Zero_eq Let_def algebra_simps)
  ultimately show ?thesis by simp
qed

text \<open>
  Claim C8. For every projective point \<open>P\<close> with \<open>Z = 1\<close>, on the curve or not,
  \<open>DoubleZ1(P)\<close> is the very triple that the extended path yields (\<^verbatim>\<open>ToExtended\<close>, the
  extended \<^verbatim>\<open>Double\<close>, and \<^verbatim>\<open>ToProjective\<close> back), so both represent the same affine point.
\<close>

theorem DoubleZ1_agrees_with_Double:
  assumes "pZ P = 1"
  shows "Proj_DoubleZ1 P = Ext_ToProjective (Ext_Double (Proj_ToExtended P))
         \<and> Proj_ToAffine (Proj_DoubleZ1 P) = Ext_ToAffine (Ext_Double (Proj_ToExtended P))"
proof -
  have eq: "Proj_DoubleZ1 P = Ext_ToProjective (Ext_Double (Proj_ToExtended P))"
    using assms
    by (simp add: Proj_DoubleZ1_eq Ext_ToProjective_def Ext_Double_eq Proj_ToExtended_eq
        Proj_var_def Two_eq Let_def algebra_simps)
  have "Proj_ToAffine (Ext_ToProjective Q) = Ext_ToAffine Q" for Q
    by (simp add: Proj_ToAffine_def Ext_ToAffine_def Ext_ToProjective_def Let_def)
  with eq show ?thesis by simp
qed

text \<open>The base point, brought into projective coordinates by the method of \<^verbatim>\<open>ge.go\<close>.\<close>

theorem DoubleZ1_agrees_with_Double_witness:
  "pZ (Proj_FromAffine_ge Proj_var Bx By) = 1
   \<and> Proj_DoubleZ1 (Proj_FromAffine_ge Proj_var Bx By)
       = Ext_ToProjective (Ext_Double (Proj_ToExtended (Proj_FromAffine_ge Proj_var Bx By)))
   \<and> Proj_ToAffine (Proj_DoubleZ1 (Proj_FromAffine_ge Proj_var Bx By))
       = Ext_ToAffine (Ext_Double (Proj_ToExtended (Proj_FromAffine_ge Proj_var Bx By)))"
proof -
  have z: "pZ (Proj_FromAffine_ge Proj_var Bx By) = 1"
    by (simp add: Proj_FromAffine_ge_def fe_ops)
  show ?thesis
    using z DoubleZ1_agrees_with_Double [OF z] by blast
qed

text \<open>
  Claim C9. \<^verbatim>\<open>ToAffine\<close>, extended or projective, called on a point whose \<open>Z\<close> coordinate
  is zero returns the pair \<open>(0, 0)\<close>: inversion maps zero to zero, and the method has no
  other way to answer.
\<close>

theorem ToAffine_of_Z_zero:
  assumes "eZ v = 0" and "pZ w = 0"
  shows "Ext_ToAffine v = (0, 0) \<and> Proj_ToAffine w = (0, 0)"
  using assms by (simp add: Ext_ToAffine_def Proj_ToAffine_def fe_ops Let_def)

theorem ToAffine_of_Z_zero_witness:
  "eZ \<lparr>eX = 3, eY = 5, eZ = 0, eT = 7\<rparr> = 0 \<and> pZ \<lparr>pX = 3, pY = 5, pZ = 0\<rparr> = 0
   \<and> Ext_ToAffine \<lparr>eX = 3, eY = 5, eZ = 0, eT = 7\<rparr> = (0, 0)
   \<and> Proj_ToAffine \<lparr>pX = 3, pY = 5, pZ = 0\<rparr> = (0, 0)"
  using ToAffine_of_Z_zero [of "\<lparr>eX = 3, eY = 5, eZ = 0, eT = 7\<rparr>" "\<lparr>pX = 3, pY = 5, pZ = 0\<rparr>"]
  by simp

text \<open>
  Claim C10. \<^verbatim>\<open>ProjectiveGroupElement.DoubleZ1\<close>, in either file, returns a pointer to a
  newly allocated point and leaves the receiver as it was, whatever projective point the
  receiver holds, \<open>Z = 1\<close> or not: the call reads the receiver once and never writes
  through it, the structs after the call are those before it with the result appended,
  and the returned address is the new one, which was not allocated before.
\<close>

theorem DoubleZ1_returns_new_point:
  assumes "v < length (heap m)"
  shows "Proj_DoubleZ1_st m v =
           Some (\<lparr>heap = heap m @ [Proj_DoubleZ1 (heap m ! v)], trace = trace m @ [Read v]\<rparr>,
                 length (heap m))
         \<and> Proj_DoubleZ1_ge_st m v =
           Some (\<lparr>heap = heap m @ [Proj_DoubleZ1_ge (heap m ! v)], trace = trace m @ [Read v]\<rparr>,
                 length (heap m))
         \<and> deref m (length (heap m)) = None
         \<and> (heap m @ [Proj_DoubleZ1 (heap m ! v)]) ! v = heap m ! v
         \<and> (heap m @ [Proj_DoubleZ1_ge (heap m ! v)]) ! v = heap m ! v"
  using assms
  by (simp add: Proj_DoubleZ1_st_def Proj_DoubleZ1_ge_st_def deref_def alloc_def nth_append)

text \<open>A receiver with \<open>Z = 2\<close>.\<close>

theorem DoubleZ1_returns_new_point_witness:
  "(0::nat) < length (heap \<lparr>heap = [\<lparr>pX = 3, pY = 5, pZ = 2\<rparr>], trace = []\<rparr>)
   \<and> Proj_DoubleZ1_st \<lparr>heap = [\<lparr>pX = 3, pY = 5, pZ = 2\<rparr>], trace = []\<rparr> 0
       = Some (\<lparr>heap = [\<lparr>pX = 3, pY = 5, pZ = 2\<rparr>, Proj_DoubleZ1 \<lparr>pX = 3, pY = 5, pZ = 2\<rparr>],
                 trace = [Read 0]\<rparr>, 1)"
  using DoubleZ1_returns_new_point [of 0 "\<lparr>heap = [\<lparr>pX = 3, pY = 5, pZ = 2\<rparr>], trace = []\<rparr>"]
  by simp

end
